theory Spec2Isabelle
  imports Main
begin

section \<open>JavaScript values read by the validator\<close>

text \<open>
  The keyword callbacks of \<^verbatim>\<open>src/schema/validator.js\<close> read the document only
  through \<^verbatim>\<open>rootData.manifest_version\<close>, a truthiness test and a numeric
  comparison. The fragment of JavaScript values below covers what a parsed JSON document
  offers to these operations: \<^verbatim>\<open>undefined\<close>, \<^verbatim>\<open>null\<close>, booleans,
  integer numbers (\<open>JNum n\<close> is the number \<open>n\<close>, a safe integer) and plain objects (an association list of own properties, first
  binding of a key first). Strings and arrays are left out: no callback reads one, and
  a manifest version is a number.
\<close>

datatype jsval =
    JUndefined
  | JNull
  | JBool bool
  | JNum int
  | JObj "(string \<times> jsval) list"

datatype js_error =
    ReferenceError string
  | TypeError string

text \<open>ToBoolean: \<^verbatim>\<open>undefined\<close>, \<^verbatim>\<open>null\<close>, \<^verbatim>\<open>false\<close> and \<^verbatim>\<open>0\<close> are falsy.\<close>

fun truthy :: "jsval \<Rightarrow> bool" where
  "truthy JUndefined = False"
| "truthy JNull = False"
| "truthy (JBool b) = b"
| "truthy (JNum n) = (n \<noteq> 0)"
| "truthy (JObj kvs) = True"

text \<open>
  Property read \<^verbatim>\<open>v.k\<close>: a TypeError on \<^verbatim>\<open>undefined\<close> and \<^verbatim>\<open>null\<close>,
  the own property of an object or \<^verbatim>\<open>undefined\<close>; a boolean or a number has no
  property of the names read here.
\<close>

fun get_prop :: "jsval \<Rightarrow> string \<Rightarrow> js_error + jsval" where
  "get_prop JUndefined k = Inl (TypeError k)"
| "get_prop JNull k = Inl (TypeError k)"
| "get_prop (JObj kvs) k = Inr (case map_of kvs k of None \<Rightarrow> JUndefined | Some v \<Rightarrow> v)"
| "get_prop (JBool b) k = Inr JUndefined"
| "get_prop (JNum n) k = Inr JUndefined"

text \<open>ToNumber; \<open>None\<close> is NaN (a plain object converts to NaN).\<close>

fun to_number :: "jsval \<Rightarrow> int option" where
  "to_number JUndefined = None"
| "to_number JNull = Some 0"
| "to_number (JBool b) = Some (if b then 1 else 0)"
| "to_number (JNum n) = Some n"
| "to_number (JObj kvs) = None"

text \<open>\<^verbatim>\<open>a <= b\<close> and \<^verbatim>\<open>a >= b\<close> on numbers: false as soon as one side is NaN.\<close>

definition js_le :: "jsval \<Rightarrow> jsval \<Rightarrow> bool" where
  "js_le a b =
     (case (to_number a, to_number b) of
        (Some x, Some y) \<Rightarrow> x \<le> y
      | _ \<Rightarrow> False)"

definition js_ge :: "jsval \<Rightarrow> jsval \<Rightarrow> bool" where
  "js_ge a b =
     (case (to_number a, to_number b) of
        (Some x, Some y) \<Rightarrow> x \<ge> y
      | _ \<Rightarrow> False)"

text \<open>
  \<^verbatim>\<open>Object.prototype.hasOwnProperty.call(o, k)\<close>: ToObject throws on
  \<^verbatim>\<open>undefined\<close> and \<^verbatim>\<open>null\<close>; a wrapped boolean or number owns no property.
\<close>

fun hasOwnProperty :: "jsval \<Rightarrow> string \<Rightarrow> js_error + bool" where
  "hasOwnProperty JUndefined k = Inl (TypeError ''hasOwnProperty'')"
| "hasOwnProperty JNull k = Inl (TypeError ''hasOwnProperty'')"
| "hasOwnProperty (JObj kvs) k = Inr (k \<in> fst ` set kvs)"
| "hasOwnProperty (JBool b) k = Inr False"
| "hasOwnProperty (JNum n) k = Inr False"

subsection \<open>Numbers in template literals\<close>

definition digit :: "nat \<Rightarrow> char" where
  "digit n = ''0123456789'' ! (n mod 10)"

function string_of_nat :: "nat \<Rightarrow> string" where
  "string_of_nat n =
     (if n < 10 then [digit n] else string_of_nat (n div 10) @ [digit n])"
  by pat_completeness auto
termination
  by (relation "measure id") auto

declare string_of_nat.simps [simp del]

text \<open>
  A number inside a template literal prints by \<^verbatim>\<open>Number::toString\<close>. Within
  the safe integers (magnitude at most \<open>2^53 - 1\<close>) every integer is a number and prints
  as its decimal digits, with a minus sign when negative. Beyond them a number prints
  by the rules of floating point (the nearest double, exponent notation from
  \<^verbatim>\<open>1e21\<close> on); that range is not modelled and the value is left unspecified
  there.
\<close>

definition MAX_SAFE_INTEGER :: int where
  "MAX_SAFE_INTEGER = 9007199254740991"

definition string_of_int :: "int \<Rightarrow> string" where
  "string_of_int i =
     (if \<bar>i\<bar> \<le> MAX_SAFE_INTEGER
      then (if i < 0 then CHR ''-'' # string_of_nat (nat (- i)) else string_of_nat (nat i))
      else undefined)"

subsection \<open>Identifiers of the module scope\<close>

text \<open>
  A free identifier of a callback is looked up in the scope of the module: a binding
  gives its value, and an identifier that nothing binds raises a ReferenceError when it
  is evaluated (the module is an ES module, hence strict).
\<close>

type_synonym scope = "string \<rightharpoonup> jsval"

definition ident :: "scope \<Rightarrow> string \<Rightarrow> js_error + jsval" where
  "ident env x = (case env x of None \<Rightarrow> Inl (ReferenceError x) | Some v \<Rightarrow> Inr v)"

text \<open>
  The data bindings of \<^verbatim>\<open>validator.js\<close>. Line 8 is its only import from
  \<^verbatim>\<open>'const'\<close>: \<^verbatim>\<open>import { DEPRECATED_MANIFEST_PROPERTIES } from 'const'\<close>. The
  value of that constant is declared outside the files at hand, so it is the parameter
  \<open>registry\<close>. Every other binding of the module (lines 1 to 7, 10 to 22, and the
  compiled validators) is a function or a schema object that no callback reads. No line
  of the file imports or declares \<^verbatim>\<open>MANIFEST_VERSION_DEFAULT\<close>.
\<close>

definition validator_scope :: "jsval \<Rightarrow> scope" where
  "validator_scope registry = [''DEPRECATED_MANIFEST_PROPERTIES'' \<mapsto> registry]"

section \<open>Diagnostics\<close>

text \<open>
  An error object as the callbacks build it. The engine's own error objects carry more
  fields (data path, schema path, parameters): they are the extension part of the record.
\<close>

record diagnostic =
  keyword :: string
  message :: string

section \<open>Constraint evaluator: the three keyword callbacks\<close>

text \<open>
  Each callback is a named function with an \<^verbatim>\<open>errors\<close> property of its own. A
  callback takes the arguments in the positions the source lists them, and the current
  value of its \<^verbatim>\<open>errors\<close> property (\<open>None\<close> is \<^verbatim>\<open>undefined\<close>); it
  returns the verdict and the property's value after the call, or the exception thrown.
\<close>

type_synonym 'a callback_result = "js_error + (bool \<times> 'a list option)"

definition validateDeprecated ::
  "scope \<Rightarrow> string \<Rightarrow> jsval \<Rightarrow> jsval \<Rightarrow> string \<Rightarrow> diagnostic list option
     \<Rightarrow> diagnostic callback_result" where
  "validateDeprecated env message_arg propValue schema dataPath errors =
     (case ident env ''DEPRECATED_MANIFEST_PROPERTIES'' of
        Inl e \<Rightarrow> Inl e
      | Inr props \<Rightarrow>
          (case hasOwnProperty props dataPath of
             Inl e \<Rightarrow> Inl e
           | Inr own \<Rightarrow>
               if \<not> own then Inr (True, errors)
               else Inr (False, Some [\<lparr>keyword = ''deprecated'', message = message_arg\<rparr>])))"

definition validateMaxMV ::
  "int \<Rightarrow> jsval \<Rightarrow> jsval \<Rightarrow> string \<Rightarrow> jsval \<Rightarrow> diagnostic list option
     \<Rightarrow> diagnostic callback_result" where
  "validateMaxMV maxMV propValue schema dataPath rootData errors =
     (case get_prop rootData ''manifest_version'' of
        Inl e \<Rightarrow> Inl e
      | Inr mv \<Rightarrow>
          (let res = js_ge (JNum maxMV) mv in
           if \<not> res then
             Inr (res, Some [\<lparr>keyword = ''unsupported'',
                   message = ''is in a format only supported in manifest versions <= ''
                               @ string_of_int maxMV\<rparr>])
           else Inr (res, errors)))"

definition validateMinMV ::
  "scope \<Rightarrow> int \<Rightarrow> jsval \<Rightarrow> jsval \<Rightarrow> string \<Rightarrow> jsval \<Rightarrow> string option \<Rightarrow> jsval
     \<Rightarrow> diagnostic list option \<Rightarrow> diagnostic callback_result" where
  "validateMinMV env minMV propValue schema dataPath parentData parentDataProperty rootData errors =
     (case (if truthy rootData then get_prop rootData ''manifest_version'' else Inr rootData) of
        Inl e \<Rightarrow> Inl e
      | Inr lhs \<Rightarrow>
          (case (if truthy lhs then Inr lhs else ident env ''MANIFEST_VERSION_DEFAULT'') of
             Inl e \<Rightarrow> Inl e
           | Inr manifestVersion \<Rightarrow>
               (let res = js_le (JNum minMV) manifestVersion in
                if \<not> res then
                  Inr (res, Some [\<lparr>keyword = ''unsupported'',
                        message = ''is in a format only supported with manifest versions >= ''
                                    @ string_of_int minMV\<rparr>])
                else Inr (res, errors))))"

text \<open>
  The engine calls a keyword's \<^verbatim>\<open>validate\<close> function with seven positional
  arguments (the \<^verbatim>\<open>SchemaValidateFunction\<close> signature that the comment at line 107
  refers to, and that \<^verbatim>\<open>validateMinMV\<close> spells out): the keyword's value in the
  schema, the data, the parent schema, the data path, the parent data, the property of
  the data in its parent (\<open>None\<close> at the root), and the root data.
\<close>

record keyword_site =
  site_data :: jsval
  site_parentSchema :: jsval
  site_dataPath :: string
  site_parentData :: jsval
  site_parentDataProperty :: "string option"
  site_rootData :: jsval

text \<open>
  JavaScript binds formals to actuals by position. \<^verbatim>\<open>validateDeprecated\<close> declares
  four formals and \<^verbatim>\<open>validateMaxMV\<close> five, so the fifth formal of
  \<^verbatim>\<open>validateMaxMV\<close>, which the source names \<^verbatim>\<open>rootData\<close>, receives the
  engine's fifth actual: the parent data.
\<close>

definition call_validateDeprecated ::
  "scope \<Rightarrow> string \<Rightarrow> keyword_site \<Rightarrow> diagnostic list option \<Rightarrow> diagnostic callback_result" where
  "call_validateDeprecated env msg s errors =
     validateDeprecated env msg (site_data s) (site_parentSchema s) (site_dataPath s) errors"

definition call_validateMaxMV ::
  "int \<Rightarrow> keyword_site \<Rightarrow> diagnostic list option \<Rightarrow> diagnostic callback_result" where
  "call_validateMaxMV maxMV s errors =
     validateMaxMV maxMV (site_data s) (site_parentSchema s) (site_dataPath s)
       (site_parentData s) errors"

definition call_validateMinMV ::
  "scope \<Rightarrow> int \<Rightarrow> keyword_site \<Rightarrow> diagnostic list option \<Rightarrow> diagnostic callback_result" where
  "call_validateMinMV env minMV s errors =
     validateMinMV env minMV (site_data s) (site_parentSchema s) (site_dataPath s)
       (site_parentData s) (site_parentDataProperty s) (site_rootData s) errors"

section \<open>Validation facade\<close>

text \<open>
  \<^verbatim>\<open>filterErrors\<close>: a falsy argument (\<^verbatim>\<open>null\<close>, \<^verbatim>\<open>undefined\<close>) is
  returned as it is; an array, also an empty one, is truthy and goes through
  \<^verbatim>\<open>Array.prototype.filter\<close> with the callback
  \<^verbatim>\<open>error.keyword !== '$merge'\<close>.
\<close>

definition not_merge :: "'x diagnostic_scheme \<Rightarrow> bool" where
  "not_merge error = (keyword error \<noteq> ''$merge'')"

fun array_filter :: "('a \<Rightarrow> bool) \<Rightarrow> 'a list \<Rightarrow> 'a list" where
  "array_filter cb [] = []"
| "array_filter cb (x # xs) = (if cb x then x # array_filter cb xs else array_filter cb xs)"

fun filterErrors :: "'x diagnostic_scheme list option \<Rightarrow> 'x diagnostic_scheme list option" where
  "filterErrors None = None"
| "filterErrors (Some errors) = Some (array_filter not_merge errors)"

text \<open>
  A compiled validator is the schema engine's: a function of the document that returns
  the verdict and leaves its diagnostics in its own \<^verbatim>\<open>errors\<close> property, read
  right after the call (\<open>None\<close> is \<^verbatim>\<open>null\<close>), or that lets an exception
  of a keyword callback through. The six compiled validators of the module are
  parameters of the facade.
\<close>

type_synonym ('doc, 'x) compiled =
  "'doc \<Rightarrow> js_error + (bool \<times> 'x diagnostic_scheme list option)"

record ('doc, 'x) compiled_validators =
  compiled_validateAddon :: "('doc, 'x) compiled"
  compiled_validateAddonMV3 :: "('doc, 'x) compiled"
  compiled_validateStaticTheme :: "('doc, 'x) compiled"
  compiled_validateLangPack :: "('doc, 'x) compiled"
  compiled_validateDictionary :: "('doc, 'x) compiled"
  compiled_validateLocaleMessages :: "('doc, 'x) compiled"

text \<open>
  The \<^verbatim>\<open>errors\<close> property of each exported function (\<open>None\<close> is
  \<^verbatim>\<open>undefined\<close> or \<^verbatim>\<open>null\<close>).
\<close>

record 'x exported_errors =
  validateAddon_errors :: "'x diagnostic_scheme list option"
  validateStaticTheme_errors :: "'x diagnostic_scheme list option"
  validateLangPack_errors :: "'x diagnostic_scheme list option"
  validateDictionary_errors :: "'x diagnostic_scheme list option"
  validateLocaleMessages_errors :: "'x diagnostic_scheme list option"

text \<open>
  The second parameter of \<^verbatim>\<open>validateAddon\<close> is
  \<^verbatim>\<open>{ enableManifestVersion3 } = {}\<close>: the default replaces
  \<^verbatim>\<open>undefined\<close> only, and destructuring \<^verbatim>\<open>null\<close> throws.
\<close>

definition validateAddon ::
  "('doc, 'x) compiled_validators \<Rightarrow> 'doc \<Rightarrow> jsval \<Rightarrow> 'x exported_errors
     \<Rightarrow> js_error + (bool \<times> 'x exported_errors)" where
  "validateAddon cv manifestData options st =
     (case get_prop (if options = JUndefined then JObj [] else options) ''enableManifestVersion3'' of
        Inl e \<Rightarrow> Inl e
      | Inr enableManifestVersion3 \<Rightarrow>
          (let validate = (if truthy enableManifestVersion3 then compiled_validateAddonMV3 cv
                           else compiled_validateAddon cv)
           in case validate manifestData of
                Inl e \<Rightarrow> Inl e
              | Inr (isValid, errors) \<Rightarrow>
                  Inr (isValid, st\<lparr>validateAddon_errors := filterErrors errors\<rparr>)))"

definition validateStaticTheme ::
  "('doc, 'x) compiled_validators \<Rightarrow> 'doc \<Rightarrow> 'x exported_errors
     \<Rightarrow> js_error + (bool \<times> 'x exported_errors)" where
  "validateStaticTheme cv manifestData st =
     (case compiled_validateStaticTheme cv manifestData of
        Inl e \<Rightarrow> Inl e
      | Inr (isValid, errors) \<Rightarrow>
          Inr (isValid, st\<lparr>validateStaticTheme_errors := filterErrors errors\<rparr>))"

definition validateLangPack ::
  "('doc, 'x) compiled_validators \<Rightarrow> 'doc \<Rightarrow> 'x exported_errors
     \<Rightarrow> js_error + (bool \<times> 'x exported_errors)" where
  "validateLangPack cv manifestData st =
     (case compiled_validateLangPack cv manifestData of
        Inl e \<Rightarrow> Inl e
      | Inr (isValid, errors) \<Rightarrow>
          Inr (isValid, st\<lparr>validateLangPack_errors := filterErrors errors\<rparr>))"

definition validateDictionary ::
  "('doc, 'x) compiled_validators \<Rightarrow> 'doc \<Rightarrow> 'x exported_errors
     \<Rightarrow> js_error + (bool \<times> 'x exported_errors)" where
  "validateDictionary cv manifestData st =
     (case compiled_validateDictionary cv manifestData of
        Inl e \<Rightarrow> Inl e
      | Inr (isValid, errors) \<Rightarrow>
          Inr (isValid, st\<lparr>validateDictionary_errors := filterErrors errors\<rparr>))"

definition validateLocaleMessages ::
  "('doc, 'x) compiled_validators \<Rightarrow> 'doc \<Rightarrow> 'x exported_errors
     \<Rightarrow> js_error + (bool \<times> 'x exported_errors)" where
  "validateLocaleMessages cv localeMessagesData st =
     (case compiled_validateLocaleMessages cv localeMessagesData of
        Inl e \<Rightarrow> Inl e
      | Inr (isValid, errors) \<Rightarrow>
          Inr (isValid, st\<lparr>validateLocaleMessages_errors := filterErrors errors\<rparr>))"


subsection \<open>A compiled validator of one annotated property\<close>

text \<open>
  To run the facade on a concrete document, one compiled validator is written out: that
  of the schema \<^verbatim>\<open>{ properties: { P: { min_manifest_version: M } } }\<close>. On an
  object that has the property \<^verbatim>\<open>P\<close> the engine calls the keyword's function at
  that property (data path \<^verbatim>\<open>/P\<close>, parent data and root data the document), with
  no handler around the call; a false verdict makes the document invalid with the
  callback's diagnostics, and anything else is valid with \<^verbatim>\<open>errors\<close> null.
\<close>

definition compiled_min_property :: "scope \<Rightarrow> string \<Rightarrow> int \<Rightarrow> (jsval, unit) compiled" where
  "compiled_min_property env P M doc =
     (case doc of
        JObj kvs \<Rightarrow>
          (case map_of kvs P of
             None \<Rightarrow> Inr (True, None)
           | Some v \<Rightarrow>
               (case call_validateMinMV env M
                       \<lparr>site_data = v,
                        site_parentSchema = JObj [(''min_manifest_version'', JNum M)],
                        site_dataPath = ''/'' @ P,
                        site_parentData = doc,
                        site_parentDataProperty = Some P,
                        site_rootData = doc\<rparr> None of
                  Inl e \<Rightarrow> Inl e
                | Inr (valid, errors) \<Rightarrow> Inr (valid, if valid then None else errors)))
      | _ \<Rightarrow> Inr (True, None))"

section \<open>The lint rule\<close>

text \<open>
  The syntax nodes the rule inspects. A member expression has the fields
  \<^verbatim>\<open>object\<close>, \<^verbatim>\<open>property\<close> and \<^verbatim>\<open>computed\<close>; an identifier has
  \<^verbatim>\<open>name\<close>; the other expressions have none of these.
\<close>

datatype node =
    Identifier string
  | MemberExpression node node bool
  | ThisExpression
  | Literal jsval
  | CallExpression node "node list"

text \<open>Field reads; \<open>None\<close> is \<^verbatim>\<open>undefined\<close>.\<close>

fun field_object :: "node \<Rightarrow> node option" where
  "field_object (MemberExpression obj prop computed) = Some obj"
| "field_object n = None"

fun field_property :: "node \<Rightarrow> node option" where
  "field_property (MemberExpression obj prop computed) = Some prop"
| "field_property n = None"

fun field_name :: "node \<Rightarrow> string option" where
  "field_name (Identifier name) = Some name"
| "field_name n = None"

text \<open>A value inside a template literal: \<^verbatim>\<open>undefined\<close> prints as its name.\<close>

fun template_string :: "string option \<Rightarrow> string" where
  "template_string None = ''undefined''"
| "template_string (Some s) = s"

record 'md settings =
  addonMetadata :: "'md option"

record 'md rule_context =
  settings :: "'md settings"
  reported :: "(node \<times> string \<times> string) list"

definition report :: "'md rule_context \<Rightarrow> node \<Rightarrow> string \<Rightarrow> string \<Rightarrow> 'md rule_context" where
  "report ctx n messageFormat api = ctx\<lparr>reported := reported ctx @ [(n, messageFormat, api)]\<rparr>"

text \<open>
  The handler \<^verbatim>\<open>MemberExpression(node)\<close> of the rule. The linter calls it on
  member expressions only. \<^verbatim>\<open>isBrowserNamespace\<close>, \<^verbatim>\<open>hasBrowserApi\<close> and
  the message format of \<^verbatim>\<open>UNSUPPORTED_API\<close> come from other modules and are
  parameters. Where \<^verbatim>\<open>node.object.object\<close> is truthy, \<^verbatim>\<open>node.object\<close> is a
  member expression and has a \<^verbatim>\<open>property\<close>.
\<close>

definition rule_MemberExpression ::
  "(string option \<Rightarrow> bool) \<Rightarrow> (string option \<Rightarrow> string option \<Rightarrow> 'md option \<Rightarrow> bool) \<Rightarrow> string
     \<Rightarrow> 'md rule_context \<Rightarrow> node \<Rightarrow> 'md rule_context" where
  "rule_MemberExpression isBrowserNamespace hasBrowserApi_p messageFormat ctx n =
     (case n of
        MemberExpression obj prop computed \<Rightarrow>
          (case (field_object obj, field_property obj) of
             (Some base, Some nsprop) \<Rightarrow>
               if \<not> computed \<and> isBrowserNamespace (field_name base) then
                 (let namespace = field_name nsprop;
                      property = field_name prop;
                      api = template_string namespace @ ''.'' @ template_string property
                  in if \<not> hasBrowserApi_p namespace property (addonMetadata (settings ctx))
                     then report ctx n messageFormat api
                     else ctx)
               else ctx
           | _ \<Rightarrow> ctx)
      | _ \<Rightarrow> ctx)"

section \<open>API compatibility oracle\<close>

text \<open>
  The module \<^verbatim>\<open>schema/browser-apis\<close> is not among the files at hand: only its
  tests are. Its operations are modelled from the specification, under the names its
  tests import.
\<close>

text \<open>
  Modelled from the spec: the data model of \<^verbatim>\<open>schema/browser-apis\<close>. A
  version bound is an optional integer pair; an absent bound is unconstrained in that
  direction.
\<close>

record VersionBound =
  bound_min :: "int option"
  bound_max :: "int option"

text \<open>
  Modelled from the spec: a member entry of \<^verbatim>\<open>schema/browser-apis\<close> has a name
  and an optional bound.
\<close>

record MemberEntry =
  member_name :: string
  member_bound :: "VersionBound option"

text \<open>
  Modelled from the spec: a namespace entry of \<^verbatim>\<open>schema/browser-apis\<close> has a
  name, an optional bound and a list of member entries.
\<close>

record NamespaceEntry =
  namespace_name :: string
  namespace_bound :: "VersionBound option"
  members :: "MemberEntry list"

text \<open>
  Modelled from the spec: the metadata that \<^verbatim>\<open>schema/browser-apis\<close> receives
  carries an optional \<^verbatim>\<open>manifestVersion\<close>. \<open>None\<close> as a metadata argument is
  the absent argument; an absent field is \<open>None\<close>.
\<close>

record ManifestMetadata =
  manifestVersion :: "int option"

text \<open>
  Modelled from the spec: the temporary set and the deprecated map that
  \<^verbatim>\<open>schema/browser-apis\<close> imports from the module \<^verbatim>\<open>'const'\<close>, which is
  not at hand either. The temporary set holds fully-qualified
  \<^verbatim>\<open>"namespace.member"\<close> strings; the deprecated map sends such a string to an
  entry with an optional bound. The oracle takes them as a record.
\<close>

record api_constants =
  TEMPORARY_APIS :: "string list"
  DEPRECATED_JAVASCRIPT_APIS :: "(string \<times> VersionBound option) list"

text \<open>
  Modelled from the spec: the bound resolver of \<^verbatim>\<open>schema/browser-apis\<close>.
  \<^verbatim>\<open>intersectMax\<close> returns the smaller of the two present maxima, the single
  present one if only one exists, and unbounded (\<open>None\<close>) if neither is present.
\<close>

fun intersectMax :: "int option \<Rightarrow> int option \<Rightarrow> int option" where
  "intersectMax None None = None"
| "intersectMax (Some a) None = Some a"
| "intersectMax None (Some b) = Some b"
| "intersectMax (Some a) (Some b) = Some (if a \<le> b then a else b)"

text \<open>
  Modelled from the spec: \<^verbatim>\<open>unionMin\<close> of \<^verbatim>\<open>schema/browser-apis\<close> returns
  the larger of the two present minima, and zero if neither is present.
\<close>

fun unionMin :: "int option \<Rightarrow> int option \<Rightarrow> int" where
  "unionMin None None = 0"
| "unionMin (Some a) None = a"
| "unionMin None (Some b) = b"
| "unionMin (Some a) (Some b) = (if a \<le> b then b else a)"

text \<open>
  Modelled from the spec: \<^verbatim>\<open>inRange\<close> of \<^verbatim>\<open>schema/browser-apis\<close> is true iff
  (the minimum is absent or the version is at least the minimum) and (the maximum is
  absent or the version is at most the maximum). The version may be
  \<^verbatim>\<open>undefined\<close> (\<open>None\<close>), which no comparison accepts.
\<close>

definition inRange :: "int option \<Rightarrow> VersionBound \<Rightarrow> bool" where
  "inRange version bound =
     ((case bound_min bound of
         None \<Rightarrow> True
       | Some m \<Rightarrow> (case version of None \<Rightarrow> False | Some v \<Rightarrow> v \<ge> m)) \<and>
      (case bound_max bound of
         None \<Rightarrow> True
       | Some m \<Rightarrow> (case version of None \<Rightarrow> False | Some v \<Rightarrow> v \<le> m)))"

text \<open>
  Modelled from the spec: \<^verbatim>\<open>getManifestVersion\<close> of \<^verbatim>\<open>schema/browser-apis\<close>
  (the spec's \<^verbatim>\<open>effectiveManifestVersion\<close>). If the metadata is entirely absent
  it returns the default version 2; if the metadata is an object it returns its version
  field, \<^verbatim>\<open>undefined\<close> where the field is lacking.
\<close>

fun getManifestVersion :: "ManifestMetadata option \<Rightarrow> int option" where
  "getManifestVersion None = Some 2"
| "getManifestVersion (Some metadata) = manifestVersion metadata"

text \<open>
  Modelled from the spec: the lookup of a namespace in the table of
  \<^verbatim>\<open>schema/browser-apis\<close> finds the entry of that name, and degrades to not
  found (\<open>None\<close>) for an unknown one.
\<close>

definition find_namespace :: "NamespaceEntry list \<Rightarrow> string \<Rightarrow> NamespaceEntry option" where
  "find_namespace table ns = find (\<lambda>e. namespace_name e = ns) table"

text \<open>
  Modelled from the spec: the lookup of a member among the members of a namespace entry
  of \<^verbatim>\<open>schema/browser-apis\<close>, not found (\<open>None\<close>) when it is not listed.
\<close>

definition find_member :: "NamespaceEntry \<Rightarrow> string \<Rightarrow> MemberEntry option" where
  "find_member e m = find (\<lambda>x. member_name x = m) (members e)"

text \<open>
  Modelled from the spec: the minimum and the maximum of an optional bound of
  \<^verbatim>\<open>schema/browser-apis\<close>, absent when the bound is.
\<close>

definition bound_min_of :: "VersionBound option \<Rightarrow> int option" where
  "bound_min_of b = (case b of None \<Rightarrow> None | Some vb \<Rightarrow> bound_min vb)"

text \<open>
  Modelled from the spec: the maximum of an optional bound, as \<open>bound_min_of\<close>.
\<close>

definition bound_max_of :: "VersionBound option \<Rightarrow> int option" where
  "bound_max_of b = (case b of None \<Rightarrow> None | Some vb \<Rightarrow> bound_max vb)"

text \<open>
  Modelled from the spec: the namespace-level bound that \<^verbatim>\<open>schema/browser-apis\<close>
  resolves for a namespace name, absent for an unknown namespace.
\<close>

definition namespaceBound :: "NamespaceEntry list \<Rightarrow> string \<Rightarrow> VersionBound option" where
  "namespaceBound table ns =
     (case find_namespace table ns of None \<Rightarrow> None | Some e \<Rightarrow> namespace_bound e)"

text \<open>
  Modelled from the spec: the member-level bound that \<^verbatim>\<open>schema/browser-apis\<close>
  resolves for a member of a namespace, absent for an unknown pair.
\<close>

definition memberBound :: "NamespaceEntry list \<Rightarrow> string \<Rightarrow> string \<Rightarrow> VersionBound option" where
  "memberBound table ns m =
     (case find_namespace table ns of
        None \<Rightarrow> None
      | Some e \<Rightarrow> (case find_member e m of None \<Rightarrow> None | Some x \<Rightarrow> member_bound x))"

text \<open>
  Modelled from the spec: \<^verbatim>\<open>getMaxManifestVersion\<close> of
  \<^verbatim>\<open>schema/browser-apis\<close> (the spec's \<^verbatim>\<open>maxSupportedVersion\<close>) is
  \<^verbatim>\<open>intersectMax(namespaceBound.max, memberBound.max)\<close> over the given table; the
  metadata is accepted and unused.
\<close>

definition getMaxManifestVersion ::
  "string \<Rightarrow> string \<Rightarrow> ManifestMetadata option \<Rightarrow> NamespaceEntry list \<Rightarrow> int option" where
  "getMaxManifestVersion ns m metadata table =
     intersectMax (bound_max_of (namespaceBound table ns)) (bound_max_of (memberBound table ns m))"

text \<open>
  Modelled from the spec: \<^verbatim>\<open>getMinManifestVersion\<close> of
  \<^verbatim>\<open>schema/browser-apis\<close> (the spec's \<^verbatim>\<open>minRequiredVersion\<close>) is
  \<^verbatim>\<open>unionMin(namespaceBound.min, memberBound.min)\<close>.
\<close>

definition getMinManifestVersion ::
  "string \<Rightarrow> string \<Rightarrow> ManifestMetadata option \<Rightarrow> NamespaceEntry list \<Rightarrow> int" where
  "getMinManifestVersion ns m metadata table =
     unionMin (bound_min_of (namespaceBound table ns)) (bound_min_of (memberBound table ns m))"

text \<open>
  Modelled from the spec: \<^verbatim>\<open>isTemporaryApi\<close> of \<^verbatim>\<open>schema/browser-apis\<close> is
  a membership test of \<^verbatim>\<open>"namespace.member"\<close> against the temporary set.
\<close>

definition isTemporaryApi :: "api_constants \<Rightarrow> string \<Rightarrow> string \<Rightarrow> bool" where
  "isTemporaryApi c ns m = (ns @ ''.'' @ m \<in> set (TEMPORARY_APIS c))"

text \<open>
  Modelled from the spec: \<^verbatim>\<open>isDeprecatedApi\<close> of \<^verbatim>\<open>schema/browser-apis\<close> is
  true iff \<^verbatim>\<open>"namespace.member"\<close> is a key of the deprecated map and the
  effective manifest version is in the entry's bound (an absent bound means deprecated
  for all versions).
\<close>

definition isDeprecatedApi ::
  "api_constants \<Rightarrow> string \<Rightarrow> string \<Rightarrow> ManifestMetadata option \<Rightarrow> bool" where
  "isDeprecatedApi c ns m metadata =
     (case map_of (DEPRECATED_JAVASCRIPT_APIS c) (ns @ ''.'' @ m) of
        None \<Rightarrow> False
      | Some None \<Rightarrow> True
      | Some (Some b) \<Rightarrow> inRange (getManifestVersion metadata) b)"

text \<open>
  Modelled from the spec: \<^verbatim>\<open>hasBrowserApi\<close> of \<^verbatim>\<open>schema/browser-apis\<close>
  (the spec's \<^verbatim>\<open>hasApi\<close>). Resolution order: if \<^verbatim>\<open>"namespace.member"\<close> is
  in the temporary set, true unconditionally. Else, if the namespace is unknown or the
  member is not listed under it, false. Else the effective bound is
  intersectMax/unionMin of the namespace-level and member-level bounds, and the result
  is \<^verbatim>\<open>inRange\<close> of the effective manifest version in it. The deprecated map
  is not consulted.
\<close>

definition hasBrowserApi ::
  "api_constants \<Rightarrow> string \<Rightarrow> string \<Rightarrow> ManifestMetadata option \<Rightarrow> NamespaceEntry list \<Rightarrow> bool" where
  "hasBrowserApi c ns m metadata table =
     (if isTemporaryApi c ns m then True
      else
        (case find_namespace table ns of
           None \<Rightarrow> False
         | Some e \<Rightarrow>
             (case find_member e m of
                None \<Rightarrow> False
              | Some x \<Rightarrow>
                  inRange (getManifestVersion metadata)
                    \<lparr>bound_min =
                       Some (unionMin (bound_min_of (namespace_bound e)) (bound_min_of (member_bound x))),
                     bound_max =
                       intersectMax (bound_max_of (namespace_bound e)) (bound_max_of (member_bound x))\<rparr>)))"

section \<open>Fixtures\<close>

text \<open>
  The synthetic table of the oracle's tests: one namespace \<^verbatim>\<open>fakeAPINamespace\<close>
  with one function \<^verbatim>\<open>fakeMethod\<close>, the bounds of each given or absent.
\<close>

definition fakeSchemas ::
  "int option \<Rightarrow> int option \<Rightarrow> int option \<Rightarrow> int option \<Rightarrow> NamespaceEntry list" where
  "fakeSchemas nmin nmax mmin mmax =
     [\<lparr>namespace_name = ''fakeAPINamespace'',
       namespace_bound = Some \<lparr>bound_min = nmin, bound_max = nmax\<rparr>,
       members = [\<lparr>member_name = ''fakeMethod'',
                   member_bound = Some \<lparr>bound_min = mmin, bound_max = mmax\<rparr>\<rparr>]\<rparr>]"

definition fakeEntry ::
  "int option \<Rightarrow> int option \<Rightarrow> int option \<Rightarrow> int option \<Rightarrow> NamespaceEntry" where
  "fakeEntry nmin nmax mmin mmax = hd (fakeSchemas nmin nmax mmin mmax)"

text \<open>
  Constants with the two entries the tests name: \<^verbatim>\<open>identity.getRedirectURL\<close> is
  temporary, \<^verbatim>\<open>runtime.getBackgroundPage\<close> is deprecated from version 3 on.
\<close>

definition sample_constants :: api_constants where
  "sample_constants =
     \<lparr>TEMPORARY_APIS = [''identity.getRedirectURL''],
      DEPRECATED_JAVASCRIPT_APIS =
        [(''runtime.getBackgroundPage'', Some \<lparr>bound_min = Some 3, bound_max = None\<rparr>)]\<rparr>"

text \<open>An engine result with one composition artifact and two genuine diagnostics.\<close>

definition sample_errors :: "diagnostic list" where
  "sample_errors =
     [\<lparr>keyword = ''$merge'', message = ''should pass $merge keyword validation''\<rparr>,
      \<lparr>keyword = ''additionalProperties'', message = ''should NOT have additional properties''\<rparr>,
      \<lparr>keyword = ''unsupported'',
       message = ''is in a format only supported in manifest versions <= 2''\<rparr>]"

definition sample_compiled :: "(jsval, unit) compiled_validators" where
  "sample_compiled =
     \<lparr>compiled_validateAddon = (\<lambda>d. Inr (True, None)),
      compiled_validateAddonMV3 = (\<lambda>d. Inr (False, Some sample_errors)),
      compiled_validateStaticTheme =
        (\<lambda>d. if d = JObj [] then Inr (False, Some sample_errors) else Inr (True, None)),
      compiled_validateLangPack = (\<lambda>d. Inr (False, Some sample_errors)),
      compiled_validateDictionary = (\<lambda>d. Inr (False, Some sample_errors)),
      compiled_validateLocaleMessages = (\<lambda>d. Inr (False, Some sample_errors))\<rparr>"

definition no_errors :: "unit exported_errors" where
  "no_errors =
     \<lparr>validateAddon_errors = None, validateStaticTheme_errors = None,
      validateLangPack_errors = None, validateDictionary_errors = None,
      validateLocaleMessages_errors = None\<rparr>"

text \<open>
  The expression \<^verbatim>\<open>browser.cookies.<name>\<close>, a namespace test that knows
  \<^verbatim>\<open>browser\<close> and \<^verbatim>\<open>chrome\<close>, and an oracle that has
  \<^verbatim>\<open>cookies.get\<close> only.
\<close>

definition browser_cookies :: "string \<Rightarrow> node" where
  "browser_cookies name =
     MemberExpression
       (MemberExpression (Identifier ''browser'') (Identifier ''cookies'') False)
       (Identifier name) False"

definition sample_isBrowserNamespace :: "string option \<Rightarrow> bool" where
  "sample_isBrowserNamespace name = (name = Some ''browser'' \<or> name = Some ''chrome'')"

definition sample_hasApi :: "string option \<Rightarrow> string option \<Rightarrow> ManifestMetadata option \<Rightarrow> bool" where
  "sample_hasApi ns m md = (ns = Some ''cookies'' \<and> m = Some ''get'')"

definition sample_context :: "ManifestMetadata rule_context" where
  "sample_context = \<lparr>settings = \<lparr>addonMetadata = None\<rparr>, reported = []\<rparr>"

section \<open>Helper lemmas\<close>

lemma array_filter_eq: "array_filter cb xs = filter cb xs"
  by (induction xs) simp_all

lemma not_merge_eq: "not_merge = (\<lambda>e. keyword e \<noteq> ''$merge'')"
  by (rule ext) (simp add: not_merge_def)

lemma filterErrors_eq:
  "filterErrors errs = map_option (filter (\<lambda>e. keyword e \<noteq> ''$merge'')) errs"
  by (cases errs) (simp_all add: array_filter_eq not_merge_eq)

lemma string_of_int_2: "string_of_int 2 = ''2''"
  by (simp add: string_of_int_def MAX_SAFE_INTEGER_def string_of_nat.simps digit_def)

lemma string_of_int_3: "string_of_int 3 = ''3''"
  by (simp add: string_of_int_def MAX_SAFE_INTEGER_def string_of_nat.simps digit_def)

lemma inRange_explicit:
  "inRange version \<lparr>bound_min = Some lo, bound_max = hi\<rparr> =
     (case version of
        None \<Rightarrow> False
      | Some v \<Rightarrow> lo \<le> v \<and> (case hi of None \<Rightarrow> True | Some mx \<Rightarrow> v \<le> mx))"
  by (simp add: inRange_def split: option.splits)

lemma find_fake_namespace:
  "find_namespace (fakeSchemas a b c d) ''fakeAPINamespace'' = Some (fakeEntry a b c d)"
  by (simp add: find_namespace_def fakeSchemas_def fakeEntry_def)

lemma find_fake_member:
  "find_member (fakeEntry a b c d) ''fakeMethod''
     = Some \<lparr>member_name = ''fakeMethod'', member_bound = Some \<lparr>bound_min = c, bound_max = d\<rparr>\<rparr>"
  by (simp add: find_member_def fakeSchemas_def fakeEntry_def)

lemma fake_namespace_bound:
  "namespace_bound (fakeEntry a b c d) = Some \<lparr>bound_min = a, bound_max = b\<rparr>"
  by (simp add: fakeSchemas_def fakeEntry_def)

section \<open>The oracle\<close>

text \<open>
  C1. \<^verbatim>\<open>hasBrowserApi(namespace, member, metadata, table)\<close> is true whenever
  \<^verbatim>\<open>"namespace.member"\<close> is in the temporary set. Otherwise it is false when the
  namespace is unknown in the table, and false when the member is not listed under it.
  Otherwise it says whether the effective manifest version lies in the effective bound:
  at least the union (larger) of the namespace-level and member-level minima, and at most
  the intersection (smaller) of their maxima. The deprecated map plays no part: replacing
  it by any other leaves the result as it is, so deprecation never makes the result false.
\<close>

theorem hasBrowserApi_resolution:
  "(ns @ ''.'' @ m \<in> set (TEMPORARY_APIS c) \<longrightarrow> hasBrowserApi c ns m metadata table) \<and>
   (ns @ ''.'' @ m \<notin> set (TEMPORARY_APIS c) \<longrightarrow>
      (find_namespace table ns = None \<longrightarrow> \<not> hasBrowserApi c ns m metadata table) \<and>
      (\<forall>e. find_namespace table ns = Some e \<longrightarrow>
         (find_member e m = None \<longrightarrow> \<not> hasBrowserApi c ns m metadata table) \<and>
         (\<forall>x. find_member e m = Some x \<longrightarrow>
            hasBrowserApi c ns m metadata table =
              (case getManifestVersion metadata of
                 None \<Rightarrow> False
               | Some v \<Rightarrow>
                   unionMin (bound_min_of (namespace_bound e)) (bound_min_of (member_bound x)) \<le> v \<and>
                   (case intersectMax (bound_max_of (namespace_bound e))
                                      (bound_max_of (member_bound x)) of
                      None \<Rightarrow> True
                    | Some mx \<Rightarrow> v \<le> mx))))) \<and>
   hasBrowserApi (c\<lparr>DEPRECATED_JAVASCRIPT_APIS := d\<rparr>) ns m metadata table
     = hasBrowserApi c ns m metadata table"
  by (simp add: hasBrowserApi_def isTemporaryApi_def inRange_explicit)

text \<open>
  The four branches of C1 on the fixtures: a temporary member with an empty table, an
  unknown namespace, an unlisted member, and a namespace that requires version 3, asked
  at version 2 and at version 3.
\<close>

theorem hasBrowserApi_resolution_witness:
  "hasBrowserApi sample_constants ''identity'' ''getRedirectURL'' None [] \<and>
   \<not> hasBrowserApi sample_constants ''foo'' ''notAnApi'' None (fakeSchemas None None None None) \<and>
   \<not> hasBrowserApi sample_constants ''fakeAPINamespace'' ''notAnApi'' None
       (fakeSchemas None None None None) \<and>
   \<not> hasBrowserApi sample_constants ''fakeAPINamespace'' ''fakeMethod''
       (Some \<lparr>manifestVersion = Some 2\<rparr>) (fakeSchemas (Some 3) None None None) \<and>
   hasBrowserApi sample_constants ''fakeAPINamespace'' ''fakeMethod''
       (Some \<lparr>manifestVersion = Some 3\<rparr>) (fakeSchemas (Some 3) None None None)"
proof -
  have t: "''identity'' @ ''.'' @ ''getRedirectURL'' \<in> set (TEMPORARY_APIS sample_constants)"
    by (simp add: sample_constants_def)
  have n1: "''foo'' @ ''.'' @ ''notAnApi'' \<notin> set (TEMPORARY_APIS sample_constants)"
    by (simp add: sample_constants_def)
  have n2: "''fakeAPINamespace'' @ ''.'' @ ''notAnApi'' \<notin> set (TEMPORARY_APIS sample_constants)"
    by (simp add: sample_constants_def)
  have n3: "''fakeAPINamespace'' @ ''.'' @ ''fakeMethod'' \<notin> set (TEMPORARY_APIS sample_constants)"
    by (simp add: sample_constants_def)
  have u: "find_namespace (fakeSchemas None None None None) ''foo'' = None"
    by (simp add: find_namespace_def fakeSchemas_def)
  have m: "find_member (fakeEntry None None None None) ''notAnApi'' = None"
    by (simp add: find_member_def fakeSchemas_def fakeEntry_def)
  have a: "hasBrowserApi sample_constants ''identity'' ''getRedirectURL'' None []"
    using hasBrowserApi_resolution
      [of "''identity''" "''getRedirectURL''" sample_constants None "[]"] t
    by blast
  have b: "\<not> hasBrowserApi sample_constants ''foo'' ''notAnApi'' None
             (fakeSchemas None None None None)"
    using hasBrowserApi_resolution
      [of "''foo''" "''notAnApi''" sample_constants None "fakeSchemas None None None None"] n1 u
    by blast
  have c: "\<not> hasBrowserApi sample_constants ''fakeAPINamespace'' ''notAnApi'' None
             (fakeSchemas None None None None)"
    using hasBrowserApi_resolution
      [of "''fakeAPINamespace''" "''notAnApi''" sample_constants None
          "fakeSchemas None None None None"] n2 find_fake_namespace m
    by blast
  have d: "\<not> hasBrowserApi sample_constants ''fakeAPINamespace'' ''fakeMethod''
       (Some \<lparr>manifestVersion = Some 2\<rparr>) (fakeSchemas (Some 3) None None None)"
    using hasBrowserApi_resolution
      [of "''fakeAPINamespace''" "''fakeMethod''" sample_constants
          "Some \<lparr>manifestVersion = Some 2\<rparr>" "fakeSchemas (Some 3) None None None"] n3
    by (simp add: find_fake_namespace find_fake_member fake_namespace_bound
        bound_min_of_def bound_max_of_def)
  have e: "hasBrowserApi sample_constants ''fakeAPINamespace'' ''fakeMethod''
       (Some \<lparr>manifestVersion = Some 3\<rparr>) (fakeSchemas (Some 3) None None None)"
    using hasBrowserApi_resolution
      [of "''fakeAPINamespace''" "''fakeMethod''" sample_constants
          "Some \<lparr>manifestVersion = Some 3\<rparr>" "fakeSchemas (Some 3) None None None"] n3
    by (simp add: find_fake_namespace find_fake_member fake_namespace_bound
        bound_min_of_def bound_max_of_def)
  from a b c d e show ?thesis by blast
qed

text \<open>
  C2, as stated, at \<^verbatim>\<open>{manifestVersion: 2}\<close>: the populated state and the absent
  state resolve to the same result, so the three input states do not always resolve to
  three distinguishable results.
\<close>

theorem getManifestVersion_states_counterexample:
  "getManifestVersion None = getManifestVersion (Some \<lparr>manifestVersion = Some 2\<rparr>) \<and>
   \<not> distinct [getManifestVersion None,
               getManifestVersion (Some \<lparr>manifestVersion = None\<rparr>),
               getManifestVersion (Some \<lparr>manifestVersion = Some 2\<rparr>)]"
  by simp

text \<open>
  C2, amended. \<^verbatim>\<open>getManifestVersion\<close> of an entirely absent metadata argument is
  the default version 2; of a present object that lacks the field it is
  \<^verbatim>\<open>undefined\<close>, with no default substituted; of \<^verbatim>\<open>{manifestVersion: v}\<close> it
  is \<open>v\<close>. The result for the empty object differs from the result for the absent
  argument and from the result for every populated object; the result for a populated
  object differs from the result for the absent argument exactly when \<open>v\<close> is not 2,
  so the three results are pairwise different whenever \<open>v\<close> is not the default.
\<close>

theorem getManifestVersion_three_states:
  "getManifestVersion None = Some 2 \<and>
   getManifestVersion (Some \<lparr>manifestVersion = None\<rparr>) = None \<and>
   getManifestVersion (Some \<lparr>manifestVersion = Some v\<rparr>) = Some v \<and>
   getManifestVersion (Some \<lparr>manifestVersion = None\<rparr>) \<noteq> getManifestVersion None \<and>
   getManifestVersion (Some \<lparr>manifestVersion = None\<rparr>)
     \<noteq> getManifestVersion (Some \<lparr>manifestVersion = Some v\<rparr>) \<and>
   (getManifestVersion (Some \<lparr>manifestVersion = Some v\<rparr>) \<noteq> getManifestVersion None) = (v \<noteq> 2) \<and>
   (v \<noteq> 2 \<longrightarrow>
      distinct [getManifestVersion None,
                getManifestVersion (Some \<lparr>manifestVersion = None\<rparr>),
                getManifestVersion (Some \<lparr>manifestVersion = Some v\<rparr>)])"
  by auto

text \<open>
  The three states of the tests: absent gives 2, the empty object gives
  \<^verbatim>\<open>undefined\<close>, \<^verbatim>\<open>{manifestVersion: 3}\<close> gives 3, three different results.
\<close>

theorem getManifestVersion_three_states_witness:
  "(3::int) \<noteq> 2 \<and>
   getManifestVersion None = Some 2 \<and>
   getManifestVersion (Some \<lparr>manifestVersion = None\<rparr>) = None \<and>
   getManifestVersion (Some \<lparr>manifestVersion = Some 3\<rparr>) = Some 3 \<and>
   distinct [getManifestVersion None,
             getManifestVersion (Some \<lparr>manifestVersion = None\<rparr>),
             getManifestVersion (Some \<lparr>manifestVersion = Some 3\<rparr>)]"
proof -
  have h: "(3::int) \<noteq> 2" by simp
  note t = getManifestVersion_three_states [of 3]
  from t have d: "(3::int) \<noteq> 2 \<longrightarrow>
      distinct [getManifestVersion None,
                getManifestVersion (Some \<lparr>manifestVersion = None\<rparr>),
                getManifestVersion (Some \<lparr>manifestVersion = Some 3\<rparr>)]"
    by blast
  from t h d show ?thesis by blast
qed

text \<open>
  C6. For a namespace of the table and a member listed under it,
  \<^verbatim>\<open>getMaxManifestVersion\<close> is the smaller of the two maxima when both are
  declared and the declared one when only one is (unbounded when none);
  \<^verbatim>\<open>getMinManifestVersion\<close> is the larger of the two minima when both are declared
  and the declared one when only one is (zero when none). Neither result depends on the
  metadata argument.
\<close>

theorem manifest_version_bounds_resolution:
  assumes "find_namespace table ns = Some e" and "find_member e m = Some x"
  shows "getMaxManifestVersion ns m metadata table =
           (case (bound_max_of (namespace_bound e), bound_max_of (member_bound x)) of
              (Some a, Some b) \<Rightarrow> Some (min a b)
            | (Some a, None) \<Rightarrow> Some a
            | (None, Some b) \<Rightarrow> Some b
            | (None, None) \<Rightarrow> None) \<and>
         getMinManifestVersion ns m metadata table =
           (case (bound_min_of (namespace_bound e), bound_min_of (member_bound x)) of
              (Some a, Some b) \<Rightarrow> max a b
            | (Some a, None) \<Rightarrow> a
            | (None, Some b) \<Rightarrow> b
            | (None, None) \<Rightarrow> 0) \<and>
         getMaxManifestVersion ns m metadata' table = getMaxManifestVersion ns m metadata table \<and>
         getMinManifestVersion ns m metadata' table = getMinManifestVersion ns m metadata table"
  using assms
  by (auto simp: getMaxManifestVersion_def getMinManifestVersion_def namespaceBound_def
      memberBound_def min_def max_def split: option.splits)

text \<open>
  The four cases of the tests: namespace maximum 3 with member maximum 2, and 2 with 3,
  give 2; namespace minimum 2 with member minimum 3, and 3 with 2, give 3.
\<close>

theorem manifest_version_bounds_resolution_witness:
  "getMaxManifestVersion ''fakeAPINamespace'' ''fakeMethod'' (Some \<lparr>manifestVersion = Some 2\<rparr>)
      (fakeSchemas None (Some 3) None (Some 2)) = Some 2 \<and>
   getMaxManifestVersion ''fakeAPINamespace'' ''fakeMethod'' (Some \<lparr>manifestVersion = Some 2\<rparr>)
      (fakeSchemas None (Some 2) None (Some 3)) = Some 2 \<and>
   getMinManifestVersion ''fakeAPINamespace'' ''fakeMethod'' (Some \<lparr>manifestVersion = Some 2\<rparr>)
      (fakeSchemas (Some 2) None (Some 3) None) = 3 \<and>
   getMinManifestVersion ''fakeAPINamespace'' ''fakeMethod'' (Some \<lparr>manifestVersion = Some 2\<rparr>)
      (fakeSchemas (Some 3) None (Some 2) None) = 3"
  using manifest_version_bounds_resolution
          [OF find_fake_namespace [of None "Some 3" None "Some 2"] find_fake_member]
        manifest_version_bounds_resolution
          [OF find_fake_namespace [of None "Some 2" None "Some 3"] find_fake_member]
        manifest_version_bounds_resolution
          [OF find_fake_namespace [of "Some 2" None "Some 3" None] find_fake_member]
        manifest_version_bounds_resolution
          [OF find_fake_namespace [of "Some 3" None "Some 2" None] find_fake_member]
  by (simp add: fake_namespace_bound bound_min_of_def bound_max_of_def)

section \<open>The keyword callbacks\<close>

text \<open>
  What \<^verbatim>\<open>validateMinMV\<close> does on a root document that declares a non-zero
  numeric version: it passes iff the bound is at most that version, and otherwise leaves
  one diagnostic.
\<close>

lemma validateMinMV_declared:
  assumes "map_of kvs ''manifest_version'' = Some (JNum v)" and "v \<noteq> 0"
  shows "validateMinMV env minMV propValue schema dataPath parentData parentDataProperty
           (JObj kvs) errors =
     (if minMV \<le> v then Inr (True, errors)
      else Inr (False, Some [\<lparr>keyword = ''unsupported'',
              message = ''is in a format only supported with manifest versions >= ''
                          @ string_of_int minMV\<rparr>]))"
  using assms by (simp add: validateMinMV_def js_le_def)

text \<open>
  On a root document without the field the callback evaluates the identifier
  \<^verbatim>\<open>MANIFEST_VERSION_DEFAULT\<close>. In a scope that binds it to 2 the default is
  substituted; in a scope that does not bind it the callback throws.
\<close>

lemma validateMinMV_default_bound:
  assumes "map_of kvs ''manifest_version'' = None"
    and "env ''MANIFEST_VERSION_DEFAULT'' = Some (JNum 2)"
  shows "validateMinMV env minMV propValue schema dataPath parentData parentDataProperty
           (JObj kvs) errors =
     (if minMV \<le> 2 then Inr (True, errors)
      else Inr (False, Some [\<lparr>keyword = ''unsupported'',
              message = ''is in a format only supported with manifest versions >= ''
                          @ string_of_int minMV\<rparr>]))"
  using assms by (simp add: validateMinMV_def js_le_def ident_def)

lemma validateMinMV_default_unbound:
  assumes "map_of kvs ''manifest_version'' = None"
    and "env ''MANIFEST_VERSION_DEFAULT'' = None"
  shows "validateMinMV env minMV propValue schema dataPath parentData parentDataProperty
           (JObj kvs) errors = Inl (ReferenceError ''MANIFEST_VERSION_DEFAULT'')"
  using assms by (simp add: validateMinMV_def ident_def)

lemma validator_scope_unbound:
  "validator_scope registry ''MANIFEST_VERSION_DEFAULT'' = None"
  by (simp add: validator_scope_def)

text \<open>
  C3, at a document without \<^verbatim>\<open>manifest_version\<close>. The document is
  \<^verbatim>\<open>{"background": {}}\<close> and the property \<^verbatim>\<open>background\<close> is annotated with
  \<^verbatim>\<open>min_manifest_version: 2\<close>. The claim substitutes the default 2 and lets the
  check pass; the callback, in the scope of its module, throws a ReferenceError instead
  of returning a verdict.
\<close>

theorem validateMinMV_absent_version_throws:
  "validateMinMV (validator_scope registry) 2 (JObj [])
      (JObj [(''min_manifest_version'', JNum 2)]) ''/background''
      (JObj [(''background'', JObj [])]) (Some ''background'')
      (JObj [(''background'', JObj [])]) None
   = Inl (ReferenceError ''MANIFEST_VERSION_DEFAULT'')"
  by (simp add: validateMinMV_def validator_scope_def ident_def)

text \<open>
  What \<^verbatim>\<open>validateMaxMV\<close> does when its fifth argument is an object that declares
  a numeric version: it passes iff that version is at most the bound. With version 3
  and bound 2 it reports \<^verbatim>\<open>unsupported\<close>; with version 2 and bound 2 it passes.
\<close>

lemma validateMaxMV_declared:
  assumes "map_of kvs ''manifest_version'' = Some (JNum v)"
  shows "validateMaxMV maxMV propValue schema dataPath (JObj kvs) errors =
     (if v \<le> maxMV then Inr (True, errors)
      else Inr (False, Some [\<lparr>keyword = ''unsupported'',
              message = ''is in a format only supported in manifest versions <= ''
                          @ string_of_int maxMV\<rparr>]))"
  using assms by (simp add: validateMaxMV_def js_ge_def)

lemma validateMaxMV_undeclared:
  assumes "map_of kvs ''manifest_version'' = None"
  shows "validateMaxMV maxMV propValue schema dataPath (JObj kvs) errors =
     Inr (False, Some [\<lparr>keyword = ''unsupported'',
              message = ''is in a format only supported in manifest versions <= ''
                          @ string_of_int maxMV\<rparr>])"
  using assms by (simp add: validateMaxMV_def js_ge_def)

lemma validateMaxMV_no_parent:
  "validateMaxMV maxMV propValue schema dataPath JUndefined errors
     = Inl (TypeError ''manifest_version'')"
  by (simp add: validateMaxMV_def)

text \<open>
  C4, at two documents where the claim lets the check pass. First
  \<^verbatim>\<open>{"background": {}}\<close>, without \<^verbatim>\<open>manifest_version\<close>, with the property
  \<^verbatim>\<open>background\<close> annotated \<^verbatim>\<open>max_manifest_version: 2\<close>: the effective version
  of the claim is the default 2, and the callback reports \<^verbatim>\<open>unsupported\<close>. Second
  \<^verbatim>\<open>{"manifest_version": 2, "background": {"persistent": true}}\<close> with the nested
  property \<^verbatim>\<open>persistent\<close> annotated \<^verbatim>\<open>max_manifest_version: 2\<close>: the callback
  reads the version from the parent object \<^verbatim>\<open>{"persistent": true}\<close> and reports
  \<^verbatim>\<open>unsupported\<close> although the document declares version 2.
\<close>

theorem validateMaxMV_absent_version_unsupported:
  "call_validateMaxMV 2
      \<lparr>site_data = JObj [],
       site_parentSchema = JObj [(''max_manifest_version'', JNum 2)],
       site_dataPath = ''/background'',
       site_parentData = JObj [(''background'', JObj [])],
       site_parentDataProperty = Some ''background'',
       site_rootData = JObj [(''background'', JObj [])]\<rparr> None
     = Inr (False, Some [\<lparr>keyword = ''unsupported'',
              message = ''is in a format only supported in manifest versions <= 2''\<rparr>]) \<and>
   call_validateMaxMV 2
      \<lparr>site_data = JBool True,
       site_parentSchema = JObj [(''max_manifest_version'', JNum 2)],
       site_dataPath = ''/background/persistent'',
       site_parentData = JObj [(''persistent'', JBool True)],
       site_parentDataProperty = Some ''persistent'',
       site_rootData = JObj [(''manifest_version'', JNum 2),
                             (''background'', JObj [(''persistent'', JBool True)])]\<rparr> None
     = Inr (False, Some [\<lparr>keyword = ''unsupported'',
              message = ''is in a format only supported in manifest versions <= 2''\<rparr>])"
  by (simp add: call_validateMaxMV_def validateMaxMV_def js_ge_def string_of_int_2)

text \<open>
  C7. With the registry an object, \<^verbatim>\<open>validateDeprecated\<close> passes and leaves its
  \<^verbatim>\<open>errors\<close> property as it was whenever the data path is not an own key of the
  registry; whenever the path is a key it fails and its \<^verbatim>\<open>errors\<close> property is
  one diagnostic with keyword \<^verbatim>\<open>deprecated\<close> and the message of the annotation.
\<close>

theorem validateDeprecated_registry:
  "(dataPath \<notin> fst ` set reg \<longrightarrow>
      validateDeprecated (validator_scope (JObj reg)) msg propValue schema dataPath errors
        = Inr (True, errors)) \<and>
   (dataPath \<in> fst ` set reg \<longrightarrow>
      validateDeprecated (validator_scope (JObj reg)) msg propValue schema dataPath errors
        = Inr (False, Some [\<lparr>keyword = ''deprecated'', message = msg\<rparr>]))"
  by (simp add: validateDeprecated_def validator_scope_def ident_def)

text \<open>
  A registry with the one key \<^verbatim>\<open>/applications\<close>: the path \<^verbatim>\<open>/name\<close> passes,
  the path \<^verbatim>\<open>/applications\<close> fails with the configured message.
\<close>

theorem validateDeprecated_registry_witness:
  "validateDeprecated (validator_scope (JObj [(''/applications'', JBool True)]))
      ''use browser_specific_settings'' (JObj []) (JObj []) ''/name'' None = Inr (True, None) \<and>
   validateDeprecated (validator_scope (JObj [(''/applications'', JBool True)]))
      ''use browser_specific_settings'' (JObj []) (JObj []) ''/applications'' None
     = Inr (False, Some [\<lparr>keyword = ''deprecated'', message = ''use browser_specific_settings''\<rparr>])"
  using validateDeprecated_registry
          [of "''/name''" "[(''/applications'', JBool True)]" "''use browser_specific_settings''"
              "JObj []" "JObj []" None]
        validateDeprecated_registry
          [of "''/applications''" "[(''/applications'', JBool True)]"
              "''use browser_specific_settings''" "JObj []" "JObj []" None]
  by simp

section \<open>The facade\<close>

text \<open>
  An exception of a compiled validator leaves the exported function as an exception:
  no statement of the facade catches it, and the \<^verbatim>\<open>errors\<close> properties keep
  their values.
\<close>

lemma validateAddon_propagates:
  assumes "compiled_validateAddon cv d = Inl e"
  shows "validateAddon cv d JUndefined st = Inl e"
  using assms by (simp add: validateAddon_def)

text \<open>
  When the engine reports an invalid document with at least one diagnostic that is not
  a composition artifact, the exposed list is not empty.
\<close>

lemma filterErrors_keeps_genuine:
  assumes "x \<in> set errs" and "keyword x \<noteq> ''$merge''"
  shows "\<exists>kept. filterErrors (Some errs) = Some kept \<and> x \<in> set kept"
  using assms by (simp add: filterErrors_eq)

text \<open>
  C5, at the document \<^verbatim>\<open>{"action": {}}\<close>, which declares no
  \<^verbatim>\<open>manifest_version\<close>, with the property \<^verbatim>\<open>action\<close> annotated
  \<^verbatim>\<open>min_manifest_version: 3\<close> in the schema of the base manifest. The claim has
  \<^verbatim>\<open>validateAddon\<close> return a boolean; the call ends in the ReferenceError that
  \<^verbatim>\<open>validateMinMV\<close> throws.
\<close>

theorem validateAddon_throws_without_manifest_version:
  "validateAddon
     (cv\<lparr>compiled_validateAddon := compiled_min_property (validator_scope registry) ''action'' 3\<rparr>)
     (JObj [(''action'', JObj [])]) JUndefined st
   = Inl (ReferenceError ''MANIFEST_VERSION_DEFAULT'')"
  by (simp add: validateAddon_def compiled_min_property_def call_validateMinMV_def
      validateMinMV_def validator_scope_def ident_def)

text \<open>
  C8. Whenever the compiled validator of a variant returns, with verdict \<open>v\<close> and
  diagnostics \<open>errs\<close>, the exported function returns \<open>v\<close> and the list it exposes
  is \<open>errs\<close> without the entries whose keyword is \<^verbatim>\<open>$merge\<close>, every other entry
  kept, in the original order (and no list where the engine left none). For
  \<^verbatim>\<open>validateAddon\<close> this holds for every options argument that can be
  destructured (every one but \<^verbatim>\<open>null\<close>), with the compiled validator the options
  select: the one capped at version 3 when \<^verbatim>\<open>enableManifestVersion3\<close> is truthy,
  the base one otherwise, also when the argument is omitted. With the options
  \<^verbatim>\<open>null\<close> no compiled validator runs: the call throws a TypeError while it
  destructures them. The property holds as well for the static theme, the language
  pack, the dictionary and the locale messages.
\<close>

theorem exposed_errors_filtered:
  "(options \<noteq> JNull \<longrightarrow>
    (if truthy (case options of
                  JObj kvs \<Rightarrow> (case map_of kvs ''enableManifestVersion3'' of
                                 None \<Rightarrow> JUndefined | Some x \<Rightarrow> x)
                | _ \<Rightarrow> JUndefined)
     then compiled_validateAddonMV3 cv else compiled_validateAddon cv) d = Inr (v, errs) \<longrightarrow>
      (\<exists>st'. validateAddon cv d options st = Inr (v, st') \<and>
         validateAddon_errors st' = map_option (filter (\<lambda>e. keyword e \<noteq> ''$merge'')) errs)) \<and>
   validateAddon cv d JNull st = Inl (TypeError ''enableManifestVersion3'') \<and>
   (compiled_validateStaticTheme cv d = Inr (v, errs) \<longrightarrow>
      (\<exists>st'. validateStaticTheme cv d st = Inr (v, st') \<and>
         validateStaticTheme_errors st' = map_option (filter (\<lambda>e. keyword e \<noteq> ''$merge'')) errs)) \<and>
   (compiled_validateLangPack cv d = Inr (v, errs) \<longrightarrow>
      (\<exists>st'. validateLangPack cv d st = Inr (v, st') \<and>
         validateLangPack_errors st' = map_option (filter (\<lambda>e. keyword e \<noteq> ''$merge'')) errs)) \<and>
   (compiled_validateDictionary cv d = Inr (v, errs) \<longrightarrow>
      (\<exists>st'. validateDictionary cv d st = Inr (v, st') \<and>
         validateDictionary_errors st' = map_option (filter (\<lambda>e. keyword e \<noteq> ''$merge'')) errs)) \<and>
   (compiled_validateLocaleMessages cv d = Inr (v, errs) \<longrightarrow>
      (\<exists>st'. validateLocaleMessages cv d st = Inr (v, st') \<and>
         validateLocaleMessages_errors st' =
           map_option (filter (\<lambda>e. keyword e \<noteq> ''$merge'')) errs))"
proof -
  have addon: "options \<noteq> JNull \<longrightarrow>
    (if truthy (case options of
                  JObj kvs \<Rightarrow> (case map_of kvs ''enableManifestVersion3'' of
                                 None \<Rightarrow> JUndefined | Some x \<Rightarrow> x)
                | _ \<Rightarrow> JUndefined)
     then compiled_validateAddonMV3 cv else compiled_validateAddon cv) d = Inr (v, errs) \<longrightarrow>
      (\<exists>st'. validateAddon cv d options st = Inr (v, st') \<and>
         validateAddon_errors st' = map_option (filter (\<lambda>e. keyword e \<noteq> ''$merge'')) errs)"
    by (cases options) (simp_all add: validateAddon_def filterErrors_eq)
  have rest: "(compiled_validateStaticTheme cv d = Inr (v, errs) \<longrightarrow>
      (\<exists>st'. validateStaticTheme cv d st = Inr (v, st') \<and>
         validateStaticTheme_errors st' = map_option (filter (\<lambda>e. keyword e \<noteq> ''$merge'')) errs)) \<and>
   (compiled_validateLangPack cv d = Inr (v, errs) \<longrightarrow>
      (\<exists>st'. validateLangPack cv d st = Inr (v, st') \<and>
         validateLangPack_errors st' = map_option (filter (\<lambda>e. keyword e \<noteq> ''$merge'')) errs)) \<and>
   (compiled_validateDictionary cv d = Inr (v, errs) \<longrightarrow>
      (\<exists>st'. validateDictionary cv d st = Inr (v, st') \<and>
         validateDictionary_errors st' = map_option (filter (\<lambda>e. keyword e \<noteq> ''$merge'')) errs)) \<and>
   (compiled_validateLocaleMessages cv d = Inr (v, errs) \<longrightarrow>
      (\<exists>st'. validateLocaleMessages cv d st = Inr (v, st') \<and>
         validateLocaleMessages_errors st' =
           map_option (filter (\<lambda>e. keyword e \<noteq> ''$merge'')) errs))"
    by (simp add: validateStaticTheme_def validateLangPack_def
        validateDictionary_def validateLocaleMessages_def filterErrors_eq)
  have null_options: "validateAddon cv d JNull st = Inl (TypeError ''enableManifestVersion3'')"
    by (simp add: validateAddon_def)
  from addon null_options rest show ?thesis by blast
qed

text \<open>
  On the fixtures: \<^verbatim>\<open>validateAddon\<close> with the options
  \<^verbatim>\<open>{enableManifestVersion3: true}\<close> runs the validator capped at version 3, and
  with the options \<^verbatim>\<open>{}\<close> the base one; \<^verbatim>\<open>validateStaticTheme\<close> runs its
  own. Of the engine's three diagnostics the composition artifact is dropped and the two
  genuine ones are exposed, in order; where the engine left null, null is exposed.
\<close>

theorem exposed_errors_filtered_witness:
  "(\<exists>st'. validateAddon sample_compiled (JObj [])
             (JObj [(''enableManifestVersion3'', JBool True)]) no_errors = Inr (False, st') \<and>
      validateAddon_errors st' =
        Some [\<lparr>keyword = ''additionalProperties'',
               message = ''should NOT have additional properties''\<rparr>,
              \<lparr>keyword = ''unsupported'',
               message = ''is in a format only supported in manifest versions <= 2''\<rparr>]) \<and>
   (\<exists>st'. validateAddon sample_compiled (JObj []) (JObj []) no_errors = Inr (True, st') \<and>
      validateAddon_errors st' = None) \<and>
   (\<exists>st'. validateStaticTheme sample_compiled (JObj []) no_errors = Inr (False, st') \<and>
      validateStaticTheme_errors st' =
        Some [\<lparr>keyword = ''additionalProperties'',
               message = ''should NOT have additional properties''\<rparr>,
              \<lparr>keyword = ''unsupported'',
               message = ''is in a format only supported in manifest versions <= 2''\<rparr>])"
proof -
  have h1: "compiled_validateAddonMV3 sample_compiled (JObj []) = Inr (False, Some sample_errors)"
    by (simp add: sample_compiled_def)
  have h2: "compiled_validateAddon sample_compiled (JObj []) = Inr (True, None)"
    by (simp add: sample_compiled_def)
  have h3: "compiled_validateStaticTheme sample_compiled (JObj []) = Inr (False, Some sample_errors)"
    by (simp add: sample_compiled_def)
  have a: "\<exists>st'. validateAddon sample_compiled (JObj [])
             (JObj [(''enableManifestVersion3'', JBool True)]) no_errors = Inr (False, st') \<and>
      validateAddon_errors st' =
        Some [\<lparr>keyword = ''additionalProperties'',
               message = ''should NOT have additional properties''\<rparr>,
              \<lparr>keyword = ''unsupported'',
               message = ''is in a format only supported in manifest versions <= 2''\<rparr>]"
    using h1 exposed_errors_filtered
      [where options = "JObj [(''enableManifestVersion3'', JBool True)]"
         and cv = sample_compiled and d = "JObj []" and v = False
         and errs = "Some sample_errors" and st = no_errors]
    by (simp add: sample_errors_def)
  have b: "\<exists>st'. validateAddon sample_compiled (JObj []) (JObj []) no_errors = Inr (True, st') \<and>
      validateAddon_errors st' = None"
    using h2 exposed_errors_filtered
      [where options = "JObj []" and cv = sample_compiled and d = "JObj []" and v = True
         and errs = None and st = no_errors]
    by simp
  have c: "\<exists>st'. validateStaticTheme sample_compiled (JObj []) no_errors = Inr (False, st') \<and>
      validateStaticTheme_errors st' =
        Some [\<lparr>keyword = ''additionalProperties'',
               message = ''should NOT have additional properties''\<rparr>,
              \<lparr>keyword = ''unsupported'',
               message = ''is in a format only supported in manifest versions <= 2''\<rparr>]"
    using h3 exposed_errors_filtered
      [where options = JUndefined and cv = sample_compiled and d = "JObj []" and v = False
         and errs = "Some sample_errors" and st = no_errors]
    by (simp add: sample_errors_def)
  from a b c show ?thesis by blast
qed




section \<open>The lint rule\<close>

text \<open>
  C9. On a member expression the handler reports exactly one diagnostic, for that node
  and the pair \<^verbatim>\<open>namespace.property\<close>, when the expression is not computed, its
  object is itself a member expression whose object has a name that
  \<^verbatim>\<open>isBrowserNamespace\<close> accepts, and \<^verbatim>\<open>hasBrowserApi\<close> is false for the
  namespace, the property and the metadata of the settings. In every other case (a
  computed access, an object that is no member expression, a base that is not accepted,
  or an API that \<^verbatim>\<open>hasBrowserApi\<close> has) it reports nothing.
\<close>

theorem rule_MemberExpression_reports:
  "(\<not> computed \<and> obj = MemberExpression base nsprop c \<and> isBrowserNamespace (field_name base) \<and>
    \<not> hasApi (field_name nsprop) (field_name prop) (addonMetadata (settings ctx)) \<longrightarrow>
      rule_MemberExpression isBrowserNamespace hasApi fmt ctx (MemberExpression obj prop computed)
        = ctx\<lparr>reported := reported ctx @
              [(MemberExpression obj prop computed, fmt,
                template_string (field_name nsprop) @ ''.'' @ template_string (field_name prop))]\<rparr>) \<and>
   (computed \<or> field_object obj = None \<or>
    (\<exists>b. field_object obj = Some b \<and> \<not> isBrowserNamespace (field_name b)) \<or>
    (\<exists>p. field_property obj = Some p \<and>
         hasApi (field_name p) (field_name prop) (addonMetadata (settings ctx))) \<longrightarrow>
      rule_MemberExpression isBrowserNamespace hasApi fmt ctx (MemberExpression obj prop computed)
        = ctx)"
  by (cases obj) (auto simp: rule_MemberExpression_def report_def)

text \<open>
  On the fixtures: \<^verbatim>\<open>browser.cookies.notAnApi\<close> is reported as
  \<^verbatim>\<open>cookies.notAnApi\<close>, and \<^verbatim>\<open>browser.cookies.get\<close> is not reported.
\<close>

theorem rule_MemberExpression_reports_witness:
  "reported (rule_MemberExpression sample_isBrowserNamespace sample_hasApi ''{{api}} is not supported''
      sample_context (browser_cookies ''notAnApi''))
     = [(browser_cookies ''notAnApi'', ''{{api}} is not supported'', ''cookies.notAnApi'')] \<and>
   rule_MemberExpression sample_isBrowserNamespace sample_hasApi ''{{api}} is not supported''
      sample_context (browser_cookies ''get'') = sample_context"
proof -
  have a: "rule_MemberExpression sample_isBrowserNamespace sample_hasApi ''{{api}} is not supported''
      sample_context (browser_cookies ''notAnApi'')
     = sample_context\<lparr>reported := reported sample_context @
         [(browser_cookies ''notAnApi'', ''{{api}} is not supported'', ''cookies.notAnApi'')]\<rparr>"
    using rule_MemberExpression_reports
      [of False "MemberExpression (Identifier ''browser'') (Identifier ''cookies'') False"
          "Identifier ''browser''" "Identifier ''cookies''" False sample_isBrowserNamespace
          sample_hasApi "Identifier ''notAnApi''" sample_context "''{{api}} is not supported''"]
    by (simp add: browser_cookies_def sample_isBrowserNamespace_def sample_hasApi_def)
  have b: "rule_MemberExpression sample_isBrowserNamespace sample_hasApi ''{{api}} is not supported''
      sample_context (browser_cookies ''get'') = sample_context"
    using rule_MemberExpression_reports
      [of False "MemberExpression (Identifier ''browser'') (Identifier ''cookies'') False"
          "Identifier ''browser''" "Identifier ''cookies''" False sample_isBrowserNamespace
          sample_hasApi "Identifier ''get''" sample_context "''{{api}} is not supported''"]
    by (simp add: browser_cookies_def sample_isBrowserNamespace_def sample_hasApi_def)
  from a b show ?thesis by (simp add: sample_context_def)
qed

end
